theory Spec2Isabelle
  imports Complex_Main
begin

section \<open>Strings and numbers as the TypeScript source uses them\<close>

text \<open>
  A JavaScript string is modelled as a \<open>string\<close>: a list of code units, here
  restricted to the 8-bit range (ASCII and Latin-1). \<open>length\<close> is the source's
  \<open>.length\<close>. A regular expression that is a single character class, tested with
  \<open>.test\<close>, holds when some code unit of the string belongs to the class.
\<close>

definition regex_test :: "(char \<Rightarrow> bool) \<Rightarrow> string \<Rightarrow> bool" where
  "regex_test cls s = list_ex cls s"

definition upper_class :: "char \<Rightarrow> bool" where
  \<comment> \<open>\<open>[A-Z]\<close>\<close>
  "upper_class c = (65 \<le> (of_char c :: nat) \<and> (of_char c :: nat) \<le> 90)"

definition lower_class :: "char \<Rightarrow> bool" where
  \<comment> \<open>\<open>[a-z]\<close>\<close>
  "lower_class c = (97 \<le> (of_char c :: nat) \<and> (of_char c :: nat) \<le> 122)"

definition digit_class :: "char \<Rightarrow> bool" where
  \<comment> \<open>\<open>\\d\<close>, without the unicode flag: \<open>[0-9]\<close>\<close>
  "digit_class c = (48 \<le> (of_char c :: nat) \<and> (of_char c :: nat) \<le> 57)"

definition special_chars :: string where
  \<comment> \<open>the characters between the brackets of the fifth expression; 0x22 is the double quote\<close>
  "special_chars = ''!@#$%^&*(),.?'' @ [CHR 0x22] @ '':{}|<>''"

definition special_class :: "char \<Rightarrow> bool" where
  "special_class c = (c \<in> set special_chars)"

definition toLowerCase_char :: "char \<Rightarrow> char" where
  \<comment> \<open>\<open>String.prototype.toLowerCase\<close> on one code unit of the 8-bit range: the ASCII
      capitals and the Latin-1 capitals (0xC0 to 0xDE without the multiplication sign)
      move up by 32, every other code unit is kept\<close>
  "toLowerCase_char c =
     (let n = (of_char c :: nat)
      in if (65 \<le> n \<and> n \<le> 90) \<or> (192 \<le> n \<and> n \<le> 222 \<and> n \<noteq> 215)
         then char_of (n + 32) else c)"

definition toLowerCase :: "string \<Rightarrow> string" where
  "toLowerCase s = map toLowerCase_char s"

section \<open>PasswordService.validatePasswordStrength\<close>

record strengthResult =
  valid :: bool
  errors :: "string list"

definition commonPasswords :: "string list" where
  "commonPasswords =
     [''password'', ''123456'', ''123456789'', ''qwerty'', ''abc123'',
      ''password123'', ''admin'', ''letmein'', ''welcome'', ''12345678'']"

definition push :: "'a list \<Rightarrow> 'a \<Rightarrow> 'a list" where
  \<comment> \<open>\<open>Array.prototype.push\<close>: the element goes to the end\<close>
  "push xs x = xs @ [x]"

definition validatePasswordStrength :: "string \<Rightarrow> strengthResult" where
  "validatePasswordStrength password =
     (let errors0 = [];
          errors1 = (if length password < 8
                     then push errors0 ''Password must be at least 8 characters long''
                     else errors0);
          errors2 = (if \<not> regex_test upper_class password
                     then push errors1 ''Password must contain at least one uppercase letter''
                     else errors1);
          errors3 = (if \<not> regex_test lower_class password
                     then push errors2 ''Password must contain at least one lowercase letter''
                     else errors2);
          errors4 = (if \<not> regex_test digit_class password
                     then push errors3 ''Password must contain at least one number''
                     else errors3);
          errors5 = (if \<not> regex_test special_class password
                     then push errors4 ''Password must contain at least one special character''
                     else errors4);
          errors6 = (if toLowerCase password \<in> set commonPasswords
                     then push errors5
                       ''Password is too common. Please choose a more secure password''
                     else errors5)
      in \<lparr> valid = (length errors6 = 0), errors = errors6 \<rparr>)"

subsection \<open>The rules of the strength policy, as the specification lists them\<close>

datatype rule = TooShort | NoUppercase | NoLowercase | NoDigit | NoSymbol | CommonPassword

definition all_rules :: "rule list" where
  "all_rules = [TooShort, NoUppercase, NoLowercase, NoDigit, NoSymbol, CommonPassword]"

fun violates :: "string \<Rightarrow> rule \<Rightarrow> bool" where
  "violates p TooShort = (length p < 8)"
| "violates p NoUppercase = (filter upper_class p = [])"
| "violates p NoLowercase = (filter lower_class p = [])"
| "violates p NoDigit = (filter digit_class p = [])"
| "violates p NoSymbol = (filter (\<lambda>c. c \<in> set special_chars) p = [])"
| "violates p CommonPassword =
     (toLowerCase p \<in> set (map toLowerCase commonPasswords))"

fun rule_message :: "rule \<Rightarrow> string" where
  "rule_message TooShort = ''Password must be at least 8 characters long''"
| "rule_message NoUppercase = ''Password must contain at least one uppercase letter''"
| "rule_message NoLowercase = ''Password must contain at least one lowercase letter''"
| "rule_message NoDigit = ''Password must contain at least one number''"
| "rule_message NoSymbol = ''Password must contain at least one special character''"
| "rule_message CommonPassword =
     ''Password is too common. Please choose a more secure password''"

definition violated_rules :: "string \<Rightarrow> rule list" where
  "violated_rules p = filter (violates p) all_rules"

section \<open>The credential store\<close>

text \<open>
  The three tables the session flow reads and writes, each a list of rows in insertion
  order. A timestamp is a number of milliseconds since the epoch, as \<open>Date\<close> holds it.
  The columns that the database maintains by itself (\<open>createdAt\<close>, \<open>updatedAt\<close>) are
  left out: no operation below reads or writes them.
\<close>

record user =
  user_id :: nat
  username :: string
  email :: string
  password :: string
  role :: string
  isActive :: bool
  failedLoginAttempts :: int
  lockoutUntil :: "int option"
  passwordChangedAt :: "int option"
  lastLoginAt :: "int option"
  lastLoginIP :: "string option"

record refreshTokenRow =
  token :: string
  rt_userId :: nat
  expiresAt :: int
  isRevoked :: bool

record loginLog =
  log_userId :: "nat option"
  log_email :: string
  ipAddress :: string
  userAgent :: string
  log_success :: bool
  reason :: string

record store =
  users :: "user list"
  refreshTokens :: "refreshTokenRow list"
  loginLogs :: "loginLog list"

definition user_findFirst :: "(user \<Rightarrow> bool) \<Rightarrow> store \<Rightarrow> user option" where
  \<comment> \<open>\<open>prisma.user.findFirst\<close> and \<open>findUnique\<close>: the first row that satisfies \<open>where\<close>\<close>
  "user_findFirst wh s = find wh (users s)"

definition user_update :: "nat \<Rightarrow> (user \<Rightarrow> user) \<Rightarrow> store \<Rightarrow> store \<times> user option" where
  \<comment> \<open>\<open>prisma.user.update({where: {id}, data})\<close>: the row with this id is rewritten and
      returned; \<open>None\<close> stands for the exception raised when there is no such row\<close>
  "user_update i f s =
     (let s' = s\<lparr> users := map (\<lambda>r. if user_id r = i then f r else r) (users s) \<rparr>
      in (s', find (\<lambda>r. user_id r = i) (users s')))"

text \<open>
  Modelled from the spec: the schema of the user table is not among the sources. The id
  is a numeric primary key that the database assigns, here one more than the largest id
  in use. A new row gets the defaults the specification names: role "user", active, no
  failed attempt, no lockout, no password change, no last login.
\<close>

definition new_user_id :: "user list \<Rightarrow> nat" where
  "new_user_id us = Suc (fold max (map user_id us) 0)"

definition user_create :: "string \<Rightarrow> string \<Rightarrow> string \<Rightarrow> store \<Rightarrow> store \<times> user" where
  \<comment> \<open>\<open>prisma.user.create\<close> with username, email and password; the created row is
      returned\<close>
  "user_create uname mail hashed s =
     (let u = \<lparr> user_id = new_user_id (users s), username = uname, email = mail,
                password = hashed, role = ''user'', isActive = True,
                failedLoginAttempts = 0, lockoutUntil = None, passwordChangedAt = None,
                lastLoginAt = None, lastLoginIP = None \<rparr>
      in (s\<lparr> users := users s @ [u] \<rparr>, u))"

definition loginLog_create :: "loginLog \<Rightarrow> store \<Rightarrow> store" where
  "loginLog_create l s = s\<lparr> loginLogs := loginLogs s @ [l] \<rparr>"

text \<open>
  Modelled from the spec: the schema of the refresh-token table is not among the sources.
  \<open>isRevoked\<close>, which the caller does not give, defaults to false.
\<close>

definition refreshToken_create :: "string \<Rightarrow> nat \<Rightarrow> int \<Rightarrow> store \<Rightarrow> store" where
  "refreshToken_create t i e s =
     s\<lparr> refreshTokens := refreshTokens s @
          [\<lparr> token = t, rt_userId = i, expiresAt = e, isRevoked = False \<rparr>] \<rparr>"

definition refreshToken_findFirst :: "(refreshTokenRow \<Rightarrow> bool) \<Rightarrow> store \<Rightarrow> refreshTokenRow option" where
  "refreshToken_findFirst wh s = find wh (refreshTokens s)"

definition refreshToken_updateMany ::
  "(refreshTokenRow \<Rightarrow> bool) \<Rightarrow> (refreshTokenRow \<Rightarrow> refreshTokenRow) \<Rightarrow> store \<Rightarrow> store" where
  "refreshToken_updateMany wh f s =
     s\<lparr> refreshTokens := map (\<lambda>r. if wh r then f r else r) (refreshTokens s) \<rparr>"

section \<open>The libraries the services delegate to\<close>

text \<open>
  \<open>bcryptjs\<close> and \<open>jsonwebtoken\<close> are not part of the repository. The services
  \<open>PasswordService\<close> and \<open>JWTService\<close> are one-line delegations to them, so the
  library functions are parameters of the model. \<open>jwt_verify\<close> gives \<open>None\<close> where
  \<open>jwt.verify\<close> throws. The salt, the random bytes of a refresh token and the clock are
  inputs of the operation that reads them; the clock readings of one request are taken
  to be one instant.
\<close>

record JWTClaims =
  userId :: nat
  jwt_username :: string
  jwt_role :: string

record JWTPayload = JWTClaims +
  iat :: "int option"
  exp :: "int option"

record crypto =
  bcrypt_hash :: "string \<Rightarrow> string \<Rightarrow> string"
  bcrypt_compare :: "string \<Rightarrow> string \<Rightarrow> bool"
  jwt_sign :: "JWTClaims \<Rightarrow> int \<Rightarrow> string"
  jwt_verify :: "string \<Rightarrow> int \<Rightarrow> JWTPayload option"

definition hashPassword :: "crypto \<Rightarrow> string \<Rightarrow> string \<Rightarrow> string" where
  "hashPassword lib salt pw = bcrypt_hash lib pw salt"

definition comparePassword :: "crypto \<Rightarrow> string \<Rightarrow> string \<Rightarrow> bool" where
  "comparePassword lib pw hashedPassword = bcrypt_compare lib pw hashedPassword"

definition generateAccessToken :: "crypto \<Rightarrow> int \<Rightarrow> JWTClaims \<Rightarrow> string" where
  "generateAccessToken lib now payload = jwt_sign lib payload now"

definition verifyAccessToken :: "crypto \<Rightarrow> int \<Rightarrow> string \<Rightarrow> JWTPayload option" where
  \<comment> \<open>every exception of \<open>jwt.verify\<close> is rethrown as one error: \<open>None\<close>\<close>
  "verifyAccessToken lib now t = jwt_verify lib t now"

definition startsWith :: "string \<Rightarrow> string \<Rightarrow> bool" where
  "startsWith s pre = (take (length pre) s = pre)"

definition extractTokenFromHeader :: "string option \<Rightarrow> string option" where
  "extractTokenFromHeader authHeader =
     (case authHeader of
        None \<Rightarrow> None
      | Some h \<Rightarrow> if h = [] \<or> \<not> startsWith h ''Bearer '' then None else Some (drop 7 h))"

section \<open>Responses\<close>

record cookieOptions =
  httpOnly :: bool
  secure :: bool
  sameSite :: string
  path :: string
  maxAge :: "int option"

datatype cookie_op =
    NoCookie
  | SetCookie string string cookieOptions
  | ClearCookie string cookieOptions

record publicUser =
  pub_id :: nat
  pub_username :: string
  pub_email :: string
  pub_role :: string

datatype body_data =
    NoData
  | Errors "string list"
  | UserData publicUser
  | LoginData publicUser string
  | TokenData string

record response =
  status :: nat
  success :: bool
  message :: "string option"
  data :: body_data
  cookie :: cookie_op

definition json :: "nat \<Rightarrow> bool \<Rightarrow> string \<Rightarrow> response" where
  \<comment> \<open>\<open>res.status(n).json({success, message})\<close>\<close>
  "json n ok msg =
     \<lparr> status = n, success = ok, message = Some msg, data = NoData, cookie = NoCookie \<rparr>"

section \<open>Authentication middleware\<close>

record reqUser =
  req_userId :: nat
  req_username :: string
  req_role :: string

definition token_stale :: "JWTPayload \<Rightarrow> user \<Rightarrow> bool" where
  \<comment> \<open>\<open>user.passwordChangedAt && tokenIssuedAt < user.passwordChangedAt\<close>, where
      \<open>tokenIssuedAt\<close> is \<open>iat * 1000\<close>; without \<open>iat\<close> the date is invalid and the
      comparison is false\<close>
  "token_stale payload u =
     (case passwordChangedAt u of
        None \<Rightarrow> False
      | Some changed \<Rightarrow>
          (case iat payload of None \<Rightarrow> False | Some i \<Rightarrow> i * 1000 < changed))"

definition authenticate :: "crypto \<Rightarrow> int \<Rightarrow> string option \<Rightarrow> store \<Rightarrow> response + reqUser" where
  "authenticate lib now authorization s =
     (case extractTokenFromHeader authorization of
        None \<Rightarrow> Inl (json 401 False ''Access token required'')
      | Some t \<Rightarrow>
          if t = [] then Inl (json 401 False ''Access token required'')
          else
            (case verifyAccessToken lib now t of
               None \<Rightarrow> Inl (json 401 False ''Invalid or expired token'')
             | Some payload \<Rightarrow>
                 (case user_findFirst (\<lambda>u. user_id u = userId payload \<and> isActive u) s of
                    None \<Rightarrow> Inl (json 401 False ''User not found or inactive'')
                  | Some u \<Rightarrow>
                      if token_stale payload u
                      then Inl (json 401 False
                                 ''Password has been changed. Please login again'')
                      else Inr \<lparr> req_userId = user_id u, req_username = username u,
                                 req_role = role u \<rparr>)))"

section \<open>Cookies and the values Prisma is given\<close>

text \<open>
  \<open>cookie-parser\<close> is installed without options and no route checks the cookie. A
  cookie whose text starts with \<open>j:\<close> is replaced by the JSON value that the rest of
  the text parses to; every other cookie is a string. So \<open>req.cookies.refreshToken\<close> is
  \<open>undefined\<close> (here \<open>None\<close>) or any JSON value, and the handlers only test it for
  truthiness before they hand it to Prisma.
\<close>

datatype json =
    JNull
  | JBool bool
  | JNum rat
  | JStr string
  | JArr "json list"
  | JObj "(string \<times> json) list"

fun truthy :: "json \<Rightarrow> bool" where
  "truthy JNull = False"
| "truthy (JBool b) = b"
| "truthy (JNum n) = (n \<noteq> 0)"
| "truthy (JStr s) = (s \<noteq> [])"
| "truthy (JArr xs) = True"
| "truthy (JObj kvs) = True"

definition falsy :: "json option \<Rightarrow> bool" where
  \<comment> \<open>\<open>!x\<close>\<close>
  "falsy x = (case x of None \<Rightarrow> True | Some v \<Rightarrow> \<not> truthy v)"

text \<open>
  In a \<open>where\<close>, the value given for a string column is read by the Prisma client: a
  string stands for equality with it. Any other value is either a filter on the column
  (an object such as \<open>{not: ""}\<close>) or is refused with a validation exception before
  the database is reached. The Prisma client is not part of the repository, so its reading
  of the values that are not strings is a parameter; \<open>None\<close> stands for the exception.
\<close>

record prisma =
  string_filter :: "json \<Rightarrow> (string \<Rightarrow> bool) option"

definition where_string :: "prisma \<Rightarrow> json \<Rightarrow> (string \<Rightarrow> bool) option" where
  "where_string db v = (case v of JStr t \<Rightarrow> Some (\<lambda>x. x = t) | _ \<Rightarrow> string_filter db v)"

section \<open>AuthController\<close>

record registerBody =
  reg_username :: string
  reg_email :: string
  reg_password :: string

record loginBody =
  body_email :: string
  body_password :: string

record client =
  ip :: "string option"
  userAgentHeader :: "string option"

definition or_unknown :: "string option \<Rightarrow> string" where
  \<comment> \<open>\<open>x || "unknown"\<close>\<close>
  "or_unknown x =
     (case x of None \<Rightarrow> ''unknown'' | Some v \<Rightarrow> if v = [] then ''unknown'' else v)"

definition digit_char :: "nat \<Rightarrow> char" where
  "digit_char d = char_of (48 + d)"

fun nat_to_string :: "nat \<Rightarrow> string" where
  "nat_to_string n =
     (if n < 10 then [digit_char n] else nat_to_string (n div 10) @ [digit_char (n mod 10)])"

definition number_to_string :: "int \<Rightarrow> string" where
  \<comment> \<open>an integer inside a template literal: its decimal digits, with a minus sign when
      it is negative\<close>
  "number_to_string i =
     (if i < 0 then CHR ''-'' # nat_to_string (nat (- i)) else nat_to_string (nat i))"

definition refreshCookie :: "int option \<Rightarrow> cookieOptions" where
  "refreshCookie age =
     \<lparr> httpOnly = True, secure = True, sameSite = ''none'', path = ''/'', maxAge = age \<rparr>"

definition public_of :: "user \<Rightarrow> publicUser" where
  "public_of u =
     \<lparr> pub_id = user_id u, pub_username = username u, pub_email = email u,
       pub_role = role u \<rparr>"

definition register :: "crypto \<Rightarrow> string \<Rightarrow> client \<Rightarrow> registerBody \<Rightarrow> store \<Rightarrow> store \<times> response" where
  "register lib salt cl body s =
     (let usernameLowerCase = toLowerCase (reg_username body)
      in case user_findFirst
                (\<lambda>u. email u = reg_email body \<or> username u = usernameLowerCase) s of
           Some existingUser \<Rightarrow>
             (s, json 409 False
                   (if email existingUser = reg_email body then ''Email already exists''
                    else ''Username already exists''))
         | None \<Rightarrow>
             (let passwordValidation = validatePasswordStrength (reg_password body)
              in if \<not> valid passwordValidation
                 then (s, (json 400 False ''Password does not meet security requirements'')
                            \<lparr> data := Errors (errors passwordValidation) \<rparr>)
                 else
                   (let hashedPassword = hashPassword lib salt (reg_password body);
                        (s1, u) = user_create usernameLowerCase (reg_email body)
                                    hashedPassword s;
                        s2 = loginLog_create
                               \<lparr> log_userId = Some (user_id u), log_email = email u,
                                 ipAddress = or_unknown (ip cl),
                                 userAgent = or_unknown (userAgentHeader cl),
                                 log_success = True, reason = ''User registration'' \<rparr> s1
                    in (s2, (json 201 True ''User registered successfully'')
                              \<lparr> data := UserData (public_of u) \<rparr>))))"

definition locked :: "user \<Rightarrow> int \<Rightarrow> bool" where
  \<comment> \<open>\<open>user.lockoutUntil && user.lockoutUntil > new Date()\<close>\<close>
  "locked u now = (case lockoutUntil u of None \<Rightarrow> False | Some t \<Rightarrow> t > now)"

definition login :: "crypto \<Rightarrow> int \<Rightarrow> string \<Rightarrow> client \<Rightarrow> loginBody \<Rightarrow> store \<Rightarrow> store \<times> response" where
  "login lib now newRefreshToken cl body s =
     (let ipAddress' = or_unknown (ip cl);
          userAgent' = or_unknown (userAgentHeader cl);
          found = user_findFirst (\<lambda>u. email u = body_email body) s;
          logData = \<lparr> log_userId = map_option user_id found, log_email = body_email body,
                      ipAddress = ipAddress', userAgent = userAgent',
                      log_success = False, reason = [] \<rparr>
      in case found of
           None \<Rightarrow>
             (loginLog_create (logData\<lparr> reason := ''User not found'' \<rparr>) s,
              json 401 False ''Invalid email or password'')
         | Some u \<Rightarrow>
             if \<not> isActive u then
               (loginLog_create (logData\<lparr> reason := ''Account deactivated'' \<rparr>) s,
                json 401 False ''Account has been deactivated'')
             else if locked u now then
               (loginLog_create (logData\<lparr> reason := ''Account locked'' \<rparr>) s,
                json 423 False
                  ''Account is temporarily locked due to too many failed attempts'')
             else if \<not> comparePassword lib (body_password body) (password u) then
               (case user_update (user_id u)
                       (\<lambda>r. r\<lparr> failedLoginAttempts := failedLoginAttempts u + 1,
                               lockoutUntil :=
                                 (if failedLoginAttempts u + 1 \<ge> 5
                                  then Some (now + 30 * 60 * 1000) else None) \<rparr>) s of
                  (s1, None) \<Rightarrow> (s1, json 500 False ''Internal server error'')
                | (s1, Some updatedUser) \<Rightarrow>
                    (loginLog_create
                       (logData\<lparr> reason := ''Invalid password (attempt '' @
                                   number_to_string (failedLoginAttempts updatedUser) @
                                   '')'' \<rparr>) s1,
                     json 401 False ''Invalid email or password''))
             else
               (case user_update (user_id u)
                       (\<lambda>r. r\<lparr> failedLoginAttempts := 0, lockoutUntil := None,
                               lastLoginAt := Some now,
                               lastLoginIP := Some ipAddress' \<rparr>) s of
                  (s1, None) \<Rightarrow> (s1, json 500 False ''Internal server error'')
                | (s1, Some _) \<Rightarrow>
                    (let accessToken = generateAccessToken lib now
                                         \<lparr> userId = user_id u, jwt_username = username u,
                                           jwt_role = role u \<rparr>;
                         s2 = refreshToken_create newRefreshToken (user_id u)
                                (now + 7 * 24 * 60 * 60 * 1000) s1;
                         s3 = loginLog_create
                                (logData\<lparr> log_success := True,
                                          reason := ''Successful login'' \<rparr>) s2
                     in (s3, \<lparr> status = 200, success = True,
                               message = Some ''Login successful'',
                               data = LoginData (public_of u) accessToken,
                               cookie = SetCookie ''refreshToken'' newRefreshToken
                                 (refreshCookie (Some (7 * 24 * 60 * 60 * 1000))) \<rparr>))))"

definition refreshToken :: "crypto \<Rightarrow> prisma \<Rightarrow> int \<Rightarrow> json option \<Rightarrow> store \<Rightarrow> store \<times> response" where
  \<comment> \<open>the row is read with its user (\<open>include: {user: true}\<close>); a row whose user is
      missing makes \<open>tokenRecord.user.isActive\<close> throw. That exception and the one Prisma
      raises for a cookie value it refuses are caught by the handler and answered 500\<close>
  "refreshToken lib db now cookieValue s =
     (case cookieValue of
        None \<Rightarrow> (s, json 401 False ''Refresh token not found'')
      | Some v \<Rightarrow>
          if \<not> truthy v then (s, json 401 False ''Refresh token not found'')
          else
            (case where_string db v of
               None \<Rightarrow> (s, json 500 False ''Internal server error'')
             | Some matches \<Rightarrow>
                 (case refreshToken_findFirst
                         (\<lambda>r. matches (token r) \<and> isRevoked r = False \<and> expiresAt r > now)
                         s of
                    None \<Rightarrow> (s, json 401 False ''Invalid or expired refresh token'')
                  | Some tokenRecord \<Rightarrow>
                      (case user_findFirst (\<lambda>u. user_id u = rt_userId tokenRecord) s of
                         None \<Rightarrow> (s, json 500 False ''Internal server error'')
                       | Some u \<Rightarrow>
                           if \<not> isActive u
                           then (s, json 401 False ''Invalid or expired refresh token'')
                           else
                             (s, \<lparr> status = 200, success = True, message = None,
                                   data = TokenData
                                     (generateAccessToken lib now
                                        \<lparr> userId = user_id u, jwt_username = username u,
                                          jwt_role = role u \<rparr>),
                                   cookie = NoCookie \<rparr>)))))"

definition loggedOut :: response where
  \<comment> \<open>\<open>res.clearCookie\<close> followed by \<open>res.json\<close>, the end of the \<open>try\<close> block of
      \<open>logout\<close>\<close>
  "loggedOut =
     (json 200 True ''Logged out successfully'')
       \<lparr> cookie := ClearCookie ''refreshToken'' (refreshCookie None) \<rparr>"

definition logout :: "prisma \<Rightarrow> reqUser \<Rightarrow> json option \<Rightarrow> store \<Rightarrow> store \<times> response" where
  \<comment> \<open>when \<open>updateMany\<close> throws, the \<open>catch\<close> block answers 500 and the cookie is not
      cleared\<close>
  "logout db caller cookieValue s =
     (case cookieValue of
        None \<Rightarrow> (s, loggedOut)
      | Some v \<Rightarrow>
          if \<not> truthy v then (s, loggedOut)
          else
            (case where_string db v of
               None \<Rightarrow> (s, json 500 False ''Internal server error'')
             | Some matches \<Rightarrow>
                 (refreshToken_updateMany
                    (\<lambda>r. matches (token r) \<and> rt_userId r = req_userId caller)
                    (\<lambda>r. r\<lparr> isRevoked := True \<rparr>) s,
                  loggedOut)))"

section \<open>Shorthands for stating the properties\<close>

text \<open>
  The row that \<open>login\<close> writes to the audit log, and the two updates it applies to
  the row of the user, named so that the statements below can refer to them.
\<close>

definition attempt_log :: "client \<Rightarrow> loginBody \<Rightarrow> nat option \<Rightarrow> bool \<Rightarrow> string \<Rightarrow> loginLog" where
  "attempt_log cl body who ok why =
     \<lparr> log_userId = who, log_email = body_email body,
       ipAddress = or_unknown (ip cl), userAgent = or_unknown (userAgentHeader cl),
       log_success = ok, reason = why \<rparr>"

definition success_update :: "int \<Rightarrow> client \<Rightarrow> user \<Rightarrow> user" where
  "success_update now cl r =
     r\<lparr> failedLoginAttempts := 0, lockoutUntil := None, lastLoginAt := Some now,
        lastLoginIP := Some (or_unknown (ip cl)) \<rparr>"

definition fail_update :: "user \<Rightarrow> int \<Rightarrow> user \<Rightarrow> user" where
  "fail_update u now r =
     r\<lparr> failedLoginAttempts := failedLoginAttempts u + 1,
        lockoutUntil := (if failedLoginAttempts u + 1 \<ge> 5
                         then Some (now + 30 * 60 * 1000) else None) \<rparr>"

text \<open>A run of login attempts on one email, each with its own clock reading.\<close>

record attempt =
  at_time :: int
  at_token :: string
  at_client :: client
  at_password :: string

definition login_attempts :: "crypto \<Rightarrow> string \<Rightarrow> attempt list \<Rightarrow> store \<Rightarrow> store" where
  "login_attempts lib e as s =
     fold (\<lambda>a s. fst (login lib (at_time a) (at_token a) (at_client a)
                          \<lparr> body_email = e, body_password = at_password a \<rparr> s)) as s"

section \<open>The decision order of login, in the words of the specification\<close>

text \<open>
  The specification lists five branches, evaluated in this order: no user found, account
  inactive, account locked, wrong password, success. Each has a status and a message for
  the client and a reason for the audit log. These definitions follow the specification;
  \<open>login\<close> above follows the source.
\<close>

datatype login_branch = NotFound | Deactivated | Locked | WrongPassword | Accepted

definition spec_login_branch :: "crypto \<Rightarrow> int \<Rightarrow> loginBody \<Rightarrow> store \<Rightarrow> login_branch" where
  "spec_login_branch lib now body s =
     (case user_findFirst (\<lambda>r. email r = body_email body) s of
        None \<Rightarrow> NotFound
      | Some u \<Rightarrow>
          if \<not> isActive u then Deactivated
          else if locked u now then Locked
          else if \<not> comparePassword lib (body_password body) (password u) then WrongPassword
          else Accepted)"

fun spec_client_status :: "login_branch \<Rightarrow> nat" where
  "spec_client_status NotFound = 401"
| "spec_client_status Deactivated = 401"
| "spec_client_status Locked = 423"
| "spec_client_status WrongPassword = 401"
| "spec_client_status Accepted = 200"

fun spec_client_message :: "login_branch \<Rightarrow> string" where
  "spec_client_message NotFound = ''Invalid email or password''"
| "spec_client_message Deactivated = ''Account has been deactivated''"
| "spec_client_message Locked =
     ''Account is temporarily locked due to too many failed attempts''"
| "spec_client_message WrongPassword = ''Invalid email or password''"
| "spec_client_message Accepted = ''Login successful''"

fun spec_audit_reason :: "login_branch \<Rightarrow> int \<Rightarrow> string" where
  "spec_audit_reason NotFound n = ''User not found''"
| "spec_audit_reason Deactivated n = ''Account deactivated''"
| "spec_audit_reason Locked n = ''Account locked''"
| "spec_audit_reason WrongPassword n =
     ''Invalid password (attempt '' @ number_to_string n @ '')''"
| "spec_audit_reason Accepted n = ''Successful login''"

definition attempts_after :: "loginBody \<Rightarrow> store \<Rightarrow> int" where
  "attempts_after body s =
     (case user_findFirst (\<lambda>r. email r = body_email body) s of
        None \<Rightarrow> 0 | Some u \<Rightarrow> failedLoginAttempts u)"

section \<open>A small instance for evaluating the operations\<close>

definition demo_lib :: crypto where
  "demo_lib =
     \<lparr> bcrypt_hash = (\<lambda>pw salt. ''hash:'' @ pw),
       bcrypt_compare = (\<lambda>pw h. h = ''hash:'' @ pw),
       jwt_sign = (\<lambda>c now. ''jwt:'' @ jwt_username c @ '':'' @ jwt_role c),
       jwt_verify = (\<lambda>t now.
          if t = ''jwt:alice:user''
          then Some \<lparr> userId = 1, jwt_username = ''alice'', jwt_role = ''user'',
                      iat = Some 100, exp = Some 1000 \<rparr>
          else None) \<rparr>"

definition alice :: user where
  "alice =
     \<lparr> user_id = 1, username = ''alice'', email = ''alice@x.com'',
       password = ''hash:Str0ng!Pass'', role = ''user'', isActive = True,
       failedLoginAttempts = 4, lockoutUntil = None, passwordChangedAt = None,
       lastLoginAt = None, lastLoginIP = None \<rparr>"

definition demo_store :: store where
  "demo_store = \<lparr> users = [alice], refreshTokens = [], loginLogs = [] \<rparr>"

definition demo_client :: client where
  "demo_client = \<lparr> ip = Some ''10.0.0.1'', userAgentHeader = None \<rparr>"

definition five_guesses :: "attempt list" where
  "five_guesses =
     map (\<lambda>t. \<lparr> at_time = t, at_token = ''r'', at_client = demo_client,
                 at_password = ''guess'' \<rparr>) [5000, 5001, 5002, 5003, 5004]"

definition demo_tokens :: "refreshTokenRow list" where
  "demo_tokens =
     [\<lparr> token = ''tokA'', rt_userId = 1, expiresAt = 900000, isRevoked = False \<rparr>,
      \<lparr> token = ''tokB'', rt_userId = 2, expiresAt = 900000, isRevoked = False \<rparr>]"

definition alice_ctx :: reqUser where
  "alice_ctx = \<lparr> req_userId = 1, req_username = ''alice'', req_role = ''user'' \<rparr>"

text \<open>
  A reading of the values that are not strings which agrees with the Prisma client on the
  two values used below: the object \<open>{not: t}\<close> is the filter "different from
  \<open>t\<close>", and a number is refused.
\<close>

fun demo_filter :: "json \<Rightarrow> (string \<Rightarrow> bool) option" where
  "demo_filter (JObj [(k, JStr t)]) = (if k = ''not'' then Some (\<lambda>x. x \<noteq> t) else None)"
| "demo_filter v = None"

definition demo_prisma :: prisma where
  "demo_prisma = \<lparr> string_filter = demo_filter \<rparr>"

section \<open>Properties of the password policy\<close>

lemma regex_test_filter: "regex_test cls s = (filter cls s \<noteq> [])"
  by (induction s) (simp_all add: regex_test_def)

lemma toLowerCase_commonPasswords: "map toLowerCase commonPasswords = commonPasswords"
  by (simp add: commonPasswords_def toLowerCase_def toLowerCase_char_def)

lemma special_class_member: "special_class = (\<lambda>c. c \<in> set special_chars)"
  by (rule ext) (simp add: special_class_def)

text \<open>
  Claim C8. For every input string, \<open>validatePasswordStrength\<close> returns the message of
  every violated rule among: fewer than 8 characters, no uppercase letter, no lowercase
  letter, no digit, no symbol of the punctuation set, and case-insensitive membership in
  the list of common passwords. The messages come in the order of the rules, none is
  left out and none is added, and \<open>valid\<close> holds exactly when no rule is violated.
\<close>

theorem validatePasswordStrength_complete:
  "errors (validatePasswordStrength p) = map rule_message (violated_rules p)
   \<and> valid (validatePasswordStrength p) = (violated_rules p = [])"
  by (simp add: validatePasswordStrength_def violated_rules_def all_rules_def push_def
      regex_test_filter special_class_member toLowerCase_commonPasswords Let_def)

theorem validatePasswordStrength_complete_witness:
  "errors (validatePasswordStrength ''Password'') =
     [''Password must contain at least one number'',
      ''Password must contain at least one special character'',
      ''Password is too common. Please choose a more secure password'']
   \<and> violated_rules ''Password'' = [NoDigit, NoSymbol, CommonPassword]
   \<and> valid (validatePasswordStrength ''Password'') = False"
proof -
  have v: "violated_rules ''Password'' = [NoDigit, NoSymbol, CommonPassword]"
    by code_simp
  show ?thesis
    using validatePasswordStrength_complete [of "''Password''"] by (simp add: v)
qed

section \<open>Lookups and updates of the store\<close>

declare nat_to_string.simps [simp del]

lemma find_map_preserve:
  "(\<And>x. P (g x) = P x) \<Longrightarrow> find P (map g xs) = map_option g (find P xs)"
  by (induction xs) simp_all

lemma find_in_set_not_None: "x \<in> set xs \<Longrightarrow> P x \<Longrightarrow> find P xs \<noteq> None"
  by (auto simp: find_None_iff)

lemma find_Some_sat: "find P xs = Some x \<Longrightarrow> P x \<and> x \<in> set xs"
  by (auto simp: find_Some_iff)

lemma user_update_returns:
  assumes "user_findFirst P s = Some u" and "\<And>r. user_id (f r) = user_id r"
  shows "\<exists>r. snd (user_update (user_id u) f s) = Some (f r)"
proof -
  let ?Q = "\<lambda>r. user_id r = user_id u"
  let ?g = "\<lambda>r. if user_id r = user_id u then f r else r"
  from assms(1) have "u \<in> set (users s)"
    by (simp add: user_findFirst_def find_Some_sat)
  then obtain r where r: "find ?Q (users s) = Some r"
    using find_in_set_not_None [of u "users s" ?Q] by auto
  then have "?Q r" using find_Some_sat [of ?Q "users s" r] by simp
  have "find ?Q (map ?g (users s)) = map_option ?g (find ?Q (users s))"
    by (rule find_map_preserve) (simp add: assms(2))
  with r \<open>?Q r\<close> have "find ?Q (map ?g (users s)) = Some (f r)" by simp
  then show ?thesis by (auto simp: user_update_def Let_def)
qed

lemma user_update_lookup:
  assumes "user_findFirst P s = Some u" and "\<And>r. P (f r) = P r"
  shows "user_findFirst P (fst (user_update (user_id u) f s)) = Some (f u)"
proof -
  let ?g = "\<lambda>r. if user_id r = user_id u then f r else r"
  have "find P (map ?g (users s)) = map_option ?g (find P (users s))"
    by (rule find_map_preserve) (simp add: assms(2))
  with assms(1) show ?thesis by (simp add: user_update_def user_findFirst_def Let_def)
qed


section \<open>The five branches of login\<close>

lemma login_not_found:
  assumes "user_findFirst (\<lambda>r. email r = body_email body) s = None"
  shows "login lib now tok cl body s =
           (loginLog_create (attempt_log cl body None False ''User not found'') s,
            json 401 False ''Invalid email or password'')"
  using assms by (simp add: login_def attempt_log_def Let_def)

lemma login_deactivated:
  assumes "user_findFirst (\<lambda>r. email r = body_email body) s = Some u"
    and "\<not> isActive u"
  shows "login lib now tok cl body s =
           (loginLog_create
              (attempt_log cl body (Some (user_id u)) False ''Account deactivated'') s,
            json 401 False ''Account has been deactivated'')"
  using assms by (simp add: login_def attempt_log_def Let_def)

lemma login_locked:
  assumes "user_findFirst (\<lambda>r. email r = body_email body) s = Some u"
    and "isActive u" and "locked u now"
  shows "login lib now tok cl body s =
           (loginLog_create
              (attempt_log cl body (Some (user_id u)) False ''Account locked'') s,
            json 423 False
              ''Account is temporarily locked due to too many failed attempts'')"
  using assms by (simp add: login_def attempt_log_def Let_def)

lemma login_wrong_password:
  assumes found: "user_findFirst (\<lambda>r. email r = body_email body) s = Some u"
    and "isActive u" and "\<not> locked u now"
    and "\<not> comparePassword lib (body_password body) (password u)"
  shows "login lib now tok cl body s =
           (loginLog_create
              (attempt_log cl body (Some (user_id u)) False
                 (''Invalid password (attempt '' @
                  number_to_string (failedLoginAttempts u + 1) @ '')''))
              (fst (user_update (user_id u) (fail_update u now) s)),
            json 401 False ''Invalid email or password'')"
proof -
  obtain r where r: "snd (user_update (user_id u) (fail_update u now) s)
                       = Some (fail_update u now r)"
    using user_update_returns [OF found, of "fail_update u now"]
    by (auto simp: fail_update_def)
  have n: "failedLoginAttempts (fail_update u now r) = failedLoginAttempts u + 1"
    by (simp add: fail_update_def)
  obtain s1 where s1: "user_update (user_id u) (fail_update u now) s
                         = (s1, Some (fail_update u now r))"
    using r by (cases "user_update (user_id u) (fail_update u now) s") simp
  have "user_update (user_id u)
          (\<lambda>r. r\<lparr> failedLoginAttempts := failedLoginAttempts u + 1,
                  lockoutUntil := (if failedLoginAttempts u + 1 \<ge> 5
                                   then Some (now + 30 * 60 * 1000) else None) \<rparr>) s
        = (s1, Some (fail_update u now r))"
    using s1 by (simp add: fail_update_def [abs_def])
  with assms s1 n show ?thesis
    by (simp add: login_def attempt_log_def Let_def)
qed

lemma login_success:
  assumes found: "user_findFirst (\<lambda>r. email r = body_email body) s = Some u"
    and "isActive u" and "\<not> locked u now"
    and "comparePassword lib (body_password body) (password u)"
  shows "login lib now tok cl body s =
           (loginLog_create
              (attempt_log cl body (Some (user_id u)) True ''Successful login'')
              (refreshToken_create tok (user_id u) (now + 7 * 24 * 60 * 60 * 1000)
                 (fst (user_update (user_id u) (success_update now cl) s))),
            \<lparr> status = 200, success = True, message = Some ''Login successful'',
              data = LoginData (public_of u)
                       (generateAccessToken lib now
                          \<lparr> userId = user_id u, jwt_username = username u,
                            jwt_role = role u \<rparr>),
              cookie = SetCookie ''refreshToken'' tok
                         (refreshCookie (Some (7 * 24 * 60 * 60 * 1000))) \<rparr>)"
proof -
  obtain r where r: "snd (user_update (user_id u) (success_update now cl) s)
                       = Some (success_update now cl r)"
    using user_update_returns [OF found, of "success_update now cl"]
    by (auto simp: success_update_def)
  obtain s1 where s1: "user_update (user_id u) (success_update now cl) s
                         = (s1, Some (success_update now cl r))"
    using r by (cases "user_update (user_id u) (success_update now cl) s") simp
  have "user_update (user_id u)
          (\<lambda>r. r\<lparr> failedLoginAttempts := 0, lockoutUntil := None,
                  lastLoginAt := Some now,
                  lastLoginIP := Some (or_unknown (ip cl)) \<rparr>) s
        = (s1, Some (success_update now cl r))"
    using s1 by (simp add: success_update_def [abs_def])
  with assms s1 show ?thesis
    by (simp add: login_def attempt_log_def Let_def)
qed


lemma fail_update_email: "email (fail_update u now r) = email r"
  by (simp add: fail_update_def)

text \<open>
  Claim C3. A login attempt that reaches the password comparison and fails it: the
  failed-attempt counter of the user grows by exactly one; the lockout is set to thirty
  minutes from now if and only if the new count is at least 5 and is cleared otherwise;
  one audit row is appended whose reason is "Invalid password (attempt N)" with N the
  new count; the response is the generic 401 "Invalid email or password".
\<close>

theorem login_wrong_password_bookkeeping:
  assumes found: "user_findFirst (\<lambda>r. email r = body_email body) s = Some u"
    and active: "isActive u"
    and unlocked: "\<not> locked u now"
    and wrong: "\<not> comparePassword lib (body_password body) (password u)"
  shows "user_findFirst (\<lambda>r. email r = body_email body)
           (fst (login lib now tok cl body s))
         = Some (u\<lparr> failedLoginAttempts := failedLoginAttempts u + 1,
                    lockoutUntil := (if 5 \<le> failedLoginAttempts u + 1
                                     then Some (now + 30 * 60 * 1000) else None) \<rparr>)
       \<and> loginLogs (fst (login lib now tok cl body s))
         = loginLogs s @
           [\<lparr> log_userId = Some (user_id u), log_email = body_email body,
              ipAddress = or_unknown (ip cl), userAgent = or_unknown (userAgentHeader cl),
              log_success = False,
              reason = ''Invalid password (attempt '' @
                       number_to_string (failedLoginAttempts u + 1) @ '')'' \<rparr>]
       \<and> snd (login lib now tok cl body s) = json 401 False ''Invalid email or password''"
proof -
  have look: "user_findFirst (\<lambda>r. email r = body_email body)
                (fst (user_update (user_id u) (fail_update u now) s))
              = Some (fail_update u now u)"
    by (rule user_update_lookup [OF found]) (simp add: fail_update_email)
  have logs: "loginLogs (fst (user_update (user_id u) (fail_update u now) s)) = loginLogs s"
    by (simp add: user_update_def Let_def)
  show ?thesis
    using look logs
    by (simp add: login_wrong_password [OF found active unlocked wrong]
        loginLog_create_def user_findFirst_def attempt_log_def fail_update_def)
qed

theorem login_wrong_password_bookkeeping_witness:
  "user_findFirst (\<lambda>r. email r = ''alice@x.com'') demo_store = Some alice
   \<and> isActive alice \<and> \<not> locked alice 1000
   \<and> \<not> comparePassword demo_lib ''guess'' (password alice)
   \<and> user_findFirst (\<lambda>r. email r = ''alice@x.com'')
        (fst (login demo_lib 1000 ''r1'' demo_client
               \<lparr> body_email = ''alice@x.com'', body_password = ''guess'' \<rparr> demo_store))
      = Some (alice\<lparr> failedLoginAttempts := 5, lockoutUntil := Some 1801000 \<rparr>)
   \<and> map reason (loginLogs (fst (login demo_lib 1000 ''r1'' demo_client
               \<lparr> body_email = ''alice@x.com'', body_password = ''guess'' \<rparr> demo_store)))
      = [''Invalid password (attempt 5)'']
   \<and> status (snd (login demo_lib 1000 ''r1'' demo_client
               \<lparr> body_email = ''alice@x.com'', body_password = ''guess'' \<rparr> demo_store))
      = 401"
proof -
  let ?body = "\<lparr> body_email = ''alice@x.com'', body_password = ''guess'' \<rparr>"
  have h1: "user_findFirst (\<lambda>r. email r = body_email ?body) demo_store = Some alice"
    by (simp add: user_findFirst_def demo_store_def alice_def)
  have h2: "isActive alice" by (simp add: alice_def)
  have h3: "\<not> locked alice 1000" by (simp add: locked_def alice_def)
  have h4: "\<not> comparePassword demo_lib (body_password ?body) (password alice)"
    by (simp add: comparePassword_def demo_lib_def alice_def)
  have n: "number_to_string 5 = ''5''" by code_simp
  have f: "failedLoginAttempts alice = 4" by (simp add: alice_def)
  show ?thesis
    using login_wrong_password_bookkeeping [OF h1 h2 h3 h4, of "''r1''" demo_client]
      h1 h2 h3 h4
    by (simp add: n f json_def demo_store_def)
qed

text \<open>
  Claim C10. When login rejects because no user has the email, or the account is
  deactivated, or the account is locked, the store after the call is the store before it
  with one row appended to the audit log: no row of the user table changes (so the
  failed-attempt counter and the lockout time stay as they were) and no refresh token
  is written.
\<close>

theorem login_rejection_writes_only_the_log:
  assumes "user_findFirst (\<lambda>r. email r = body_email body) s = None
           \<or> (\<exists>u. user_findFirst (\<lambda>r. email r = body_email body) s = Some u
                  \<and> (\<not> isActive u \<or> locked u now))"
  shows "fst (login lib now tok cl body s)
         = s\<lparr> loginLogs := loginLogs s @ [last (loginLogs (fst (login lib now tok cl body s)))] \<rparr>
       \<and> users (fst (login lib now tok cl body s)) = users s
       \<and> refreshTokens (fst (login lib now tok cl body s)) = refreshTokens s"
proof -
  consider (nf) "user_findFirst (\<lambda>r. email r = body_email body) s = None"
    | (de) u where "user_findFirst (\<lambda>r. email r = body_email body) s = Some u" "\<not> isActive u"
    | (lo) u where "user_findFirst (\<lambda>r. email r = body_email body) s = Some u" "isActive u"
        "locked u now"
    using assms by auto
  then show ?thesis
  proof cases
    case nf
    then show ?thesis by (simp add: login_not_found loginLog_create_def)
  next
    case de
    then show ?thesis by (simp add: login_deactivated loginLog_create_def)
  next
    case lo
    then show ?thesis by (simp add: login_locked loginLog_create_def)
  qed
qed

theorem login_rejection_writes_only_the_log_witness:
  "(\<exists>u. user_findFirst (\<lambda>r. email r = ''alice@x.com'')
            (demo_store\<lparr> users := [alice\<lparr> lockoutUntil := Some 5000 \<rparr>] \<rparr>) = Some u
        \<and> (\<not> isActive u \<or> locked u 1000))
   \<and> users (fst (login demo_lib 1000 ''r1'' demo_client
          \<lparr> body_email = ''alice@x.com'', body_password = ''Str0ng!Pass'' \<rparr>
          (demo_store\<lparr> users := [alice\<lparr> lockoutUntil := Some 5000 \<rparr>] \<rparr>)))
      = [alice\<lparr> lockoutUntil := Some 5000 \<rparr>]
   \<and> length (loginLogs (fst (login demo_lib 1000 ''r1'' demo_client
          \<lparr> body_email = ''alice@x.com'', body_password = ''Str0ng!Pass'' \<rparr>
          (demo_store\<lparr> users := [alice\<lparr> lockoutUntil := Some 5000 \<rparr>] \<rparr>)))) = 1"
proof -
  let ?s = "demo_store\<lparr> users := [alice\<lparr> lockoutUntil := Some 5000 \<rparr>] \<rparr>"
  let ?body = "\<lparr> body_email = ''alice@x.com'', body_password = ''Str0ng!Pass'' \<rparr>"
  have h: "\<exists>u. user_findFirst (\<lambda>r. email r = body_email ?body) ?s = Some u
             \<and> (\<not> isActive u \<or> locked u 1000)"
    by (simp add: user_findFirst_def demo_store_def alice_def locked_def)
  have l: "loginLogs ?s = []" by (simp add: demo_store_def)
  from h have "user_findFirst (\<lambda>r. email r = body_email ?body) ?s = None \<or>
     (\<exists>u. user_findFirst (\<lambda>r. email r = body_email ?body) ?s = Some u
             \<and> (\<not> isActive u \<or> locked u 1000))" by blast
  from login_rejection_writes_only_the_log [OF this, of demo_lib "''r1''" demo_client]
  have "users (fst (login demo_lib 1000 ''r1'' demo_client ?body ?s)) = users ?s"
    and "length (loginLogs (fst (login demo_lib 1000 ''r1'' demo_client ?body ?s))) = 1"
    using l by (auto dest: arg_cong [where f = "\<lambda>s. length (loginLogs s)"])
  then show ?thesis using h by simp
qed

text \<open>
  Claim C4. The response and the audit row of login are those of the branch that the
  specification's decision order selects: not found, deactivated, locked, wrong password,
  success, tried in this order. The client sees the same "Invalid email or password" for
  the first and the fourth branch, and a message of their own for the deactivated and the
  locked branch; the audit reason is specific to the branch in all five, with the new
  count of failed attempts in the fourth.
\<close>

theorem login_branch_order:
  "status (snd (login lib now tok cl body s))
     = spec_client_status (spec_login_branch lib now body s)
   \<and> message (snd (login lib now tok cl body s))
     = Some (spec_client_message (spec_login_branch lib now body s))
   \<and> reason (last (loginLogs (fst (login lib now tok cl body s))))
     = spec_audit_reason (spec_login_branch lib now body s)
         (attempts_after body (fst (login lib now tok cl body s)))
   \<and> log_success (last (loginLogs (fst (login lib now tok cl body s))))
     = (spec_login_branch lib now body s = Accepted)
   \<and> spec_client_message NotFound = spec_client_message WrongPassword
   \<and> spec_client_message Deactivated \<noteq> spec_client_message NotFound
   \<and> spec_client_message Locked \<noteq> spec_client_message NotFound
   \<and> spec_client_message Locked \<noteq> spec_client_message Deactivated"
proof (cases "user_findFirst (\<lambda>r. email r = body_email body) s")
  case None
  then show ?thesis
    by (simp add: login_not_found spec_login_branch_def json_def loginLog_create_def
        attempt_log_def)
next
  case (Some u)
  note found = this
  show ?thesis
  proof (cases "isActive u")
    case False
    with found show ?thesis
      by (simp add: login_deactivated spec_login_branch_def json_def loginLog_create_def
          attempt_log_def)
  next
    case True
    note active = this
    show ?thesis
    proof (cases "locked u now")
      case True
      with found active show ?thesis
        by (simp add: login_locked spec_login_branch_def json_def loginLog_create_def
            attempt_log_def)
    next
      case False
      note unlocked = this
      show ?thesis
      proof (cases "comparePassword lib (body_password body) (password u)")
        case True
        with found active unlocked show ?thesis
          by (simp add: login_success spec_login_branch_def loginLog_create_def
              attempt_log_def)
      next
        case False
        have look: "user_findFirst (\<lambda>r. email r = body_email body)
                (fst (user_update (user_id u) (fail_update u now) s))
              = Some (fail_update u now u)"
          by (rule user_update_lookup [OF found]) (simp add: fail_update_email)
        have n: "attempts_after body (fst (login lib now tok cl body s))
                  = failedLoginAttempts u + 1"
          using look
          by (simp add: attempts_after_def login_wrong_password [OF found active unlocked False]
              loginLog_create_def user_findFirst_def fail_update_def)
        from found active unlocked False show ?thesis
          unfolding n
          by (simp add: login_wrong_password spec_login_branch_def json_def
              loginLog_create_def attempt_log_def)
      qed
    qed
  qed
qed

theorem login_branch_order_witness:
  "spec_login_branch demo_lib 1000
     \<lparr> body_email = ''alice@x.com'', body_password = ''guess'' \<rparr> demo_store = WrongPassword
   \<and> status (snd (login demo_lib 1000 ''r1'' demo_client
         \<lparr> body_email = ''alice@x.com'', body_password = ''guess'' \<rparr> demo_store)) = 401
   \<and> message (snd (login demo_lib 1000 ''r1'' demo_client
         \<lparr> body_email = ''alice@x.com'', body_password = ''guess'' \<rparr> demo_store))
       = Some ''Invalid email or password''
   \<and> reason (last (loginLogs (fst (login demo_lib 1000 ''r1'' demo_client
         \<lparr> body_email = ''alice@x.com'', body_password = ''guess'' \<rparr> demo_store))))
       = ''Invalid password (attempt 5)''
   \<and> log_success (last (loginLogs (fst (login demo_lib 1000 ''r1'' demo_client
         \<lparr> body_email = ''alice@x.com'', body_password = ''guess'' \<rparr> demo_store))))
       = False"
proof -
  let ?body = "\<lparr> body_email = ''alice@x.com'', body_password = ''guess'' \<rparr>"
  have b: "spec_login_branch demo_lib 1000 ?body demo_store = WrongPassword"
    by (simp add: spec_login_branch_def user_findFirst_def demo_store_def alice_def
        locked_def comparePassword_def demo_lib_def)
  have n: "number_to_string 5 = ''5''" by code_simp
  have a: "attempts_after ?body (fst (login demo_lib 1000 ''r1'' demo_client ?body demo_store))
           = 5"
    by (simp add: attempts_after_def login_def user_findFirst_def demo_store_def alice_def
        locked_def comparePassword_def demo_lib_def user_update_def loginLog_create_def
        Let_def)
  show ?thesis
    using login_branch_order [of demo_lib 1000 "''r1''" demo_client ?body demo_store]
    by (simp add: b a n)
qed

section \<open>Lockout\<close>

lemma locked_fail_update:
  "locked (fail_update u now u) t
     = (5 \<le> failedLoginAttempts u + 1 \<and> t < now + 30 * 60 * 1000)"
  by (simp add: locked_def fail_update_def)

lemma login_wrong_password_lookup:
  assumes found: "user_findFirst (\<lambda>r. email r = e) s = Some u"
    and active: "isActive u"
    and unlocked: "\<not> locked u now"
    and wrong: "\<not> comparePassword lib pw (password u)"
  shows "user_findFirst (\<lambda>r. email r = e)
           (fst (login lib now tok cl \<lparr> body_email = e, body_password = pw \<rparr> s))
         = Some (fail_update u now u)"
proof -
  let ?body = "\<lparr> body_email = e, body_password = pw \<rparr>"
  have found': "user_findFirst (\<lambda>r. email r = body_email ?body) s = Some u"
    using found by simp
  have wrong': "\<not> comparePassword lib (body_password ?body) (password u)"
    using wrong by simp
  have "user_findFirst (\<lambda>r. email r = e)
          (fst (user_update (user_id u) (fail_update u now) s))
        = Some (fail_update u now u)"
    by (rule user_update_lookup [OF found]) (simp add: fail_update_email)
  then show ?thesis
    by (simp add: login_wrong_password [OF found' active unlocked wrong']
        loginLog_create_def user_findFirst_def)
qed

lemma login_attempts_all_wrong:
  assumes "user_findFirst (\<lambda>r. email r = e) s = Some u"
    and "isActive u"
    and "as \<noteq> []"
    and "\<not> locked u (at_time (hd as))"
    and "failedLoginAttempts u + int (length as) \<le> 5"
    and "\<forall>a \<in> set as. \<not> comparePassword lib (at_password a) (password u)"
  shows "user_findFirst (\<lambda>r. email r = e) (login_attempts lib e as s)
         = Some (u\<lparr> failedLoginAttempts := failedLoginAttempts u + int (length as),
                    lockoutUntil :=
                      (if 5 \<le> failedLoginAttempts u + int (length as)
                       then Some (at_time (last as) + 30 * 60 * 1000) else None) \<rparr>)"
  using assms
proof (induction as arbitrary: s u)
  case Nil
  then show ?case by simp
next
  case (Cons a as)
  let ?s1 = "fst (login lib (at_time a) (at_token a) (at_client a)
                   \<lparr> body_email = e, body_password = at_password a \<rparr> s)"
  let ?u1 = "fail_update u (at_time a) u"
  have step: "user_findFirst (\<lambda>r. email r = e) ?s1 = Some ?u1"
    using Cons.prems by (intro login_wrong_password_lookup) simp_all
  show ?case
  proof (cases as)
    case Nil
    with step show ?thesis by (simp add: login_attempts_def fail_update_def)
  next
    case (Cons b bs)
    have small: "failedLoginAttempts u + 1 < 5"
      using Cons.prems(5) Cons by simp
    have "user_findFirst (\<lambda>r. email r = e) (login_attempts lib e as ?s1)
          = Some (?u1\<lparr> failedLoginAttempts := failedLoginAttempts ?u1 + int (length as),
                    lockoutUntil :=
                      (if 5 \<le> failedLoginAttempts ?u1 + int (length as)
                       then Some (at_time (last as) + 30 * 60 * 1000) else None) \<rparr>)"
    proof (rule Cons.IH [OF step])
      show "isActive ?u1" using Cons.prems(2) by (simp add: fail_update_def)
      show "as \<noteq> []" using Cons by simp
      show "\<not> locked ?u1 (at_time (hd as))" using small by (simp add: locked_fail_update)
      show "failedLoginAttempts ?u1 + int (length as) \<le> 5"
        using Cons.prems(5) by (simp add: fail_update_def)
      show "\<forall>a\<in>set as. \<not> comparePassword lib (at_password a) (password ?u1)"
        using Cons.prems(6) by (simp add: fail_update_def)
    qed
    then show ?thesis
      using Cons by (simp add: login_attempts_def fail_update_def add.assoc)
  qed
qed


lemma success_update_email: "email (success_update now cl r) = email r"
  by (simp add: success_update_def)

text \<open>
  Claim C2, as the code has it. A deactivated account is answered before the lockout is
  looked at, so the statement is about an active user. For an active user whose
  \<open>lockoutUntil\<close> is set and later than now, login answers 423 "Account is temporarily
  locked" whatever password is supplied. After five wrong passwords in a row, starting
  from a counter of 0, a sixth attempt made less than thirty minutes after the fifth is
  answered 423, also with the right password. Once \<open>lockoutUntil\<close> is no longer in the
  future, the right password is answered 200 and the row of the user has
  \<open>failedLoginAttempts = 0\<close> and no lockout.
\<close>

theorem login_lockout:
  assumes found: "user_findFirst (\<lambda>r. email r = e) s = Some u"
    and active: "isActive u"
  shows "(locked u now \<longrightarrow>
            snd (login lib now tok cl \<lparr> body_email = e, body_password = pw \<rparr> s)
            = json 423 False
                ''Account is temporarily locked due to too many failed attempts'')
       \<and> (failedLoginAttempts u = 0 \<and> length as = 5 \<and> \<not> locked u (at_time (hd as))
            \<and> (\<forall>a \<in> set as. \<not> comparePassword lib (at_password a) (password u))
            \<and> now6 < at_time (last as) + 30 * 60 * 1000 \<longrightarrow>
            snd (login lib now6 tok cl \<lparr> body_email = e, body_password = pw \<rparr>
                   (login_attempts lib e as s))
            = json 423 False
                ''Account is temporarily locked due to too many failed attempts'')
       \<and> (\<not> locked u later \<and> comparePassword lib pw (password u) \<longrightarrow>
            status (snd (login lib later tok cl \<lparr> body_email = e, body_password = pw \<rparr> s))
            = 200
            \<and> user_findFirst (\<lambda>r. email r = e)
                (fst (login lib later tok cl \<lparr> body_email = e, body_password = pw \<rparr> s))
              = Some (u\<lparr> failedLoginAttempts := 0, lockoutUntil := None,
                         lastLoginAt := Some later,
                         lastLoginIP := Some (or_unknown (ip cl)) \<rparr>))"
proof (intro conjI impI)
  let ?body = "\<lparr> body_email = e, body_password = pw \<rparr>"
  have found': "user_findFirst (\<lambda>r. email r = body_email ?body) s = Some u"
    using found by simp
  {
    assume "locked u now"
    with found' active
    show "snd (login lib now tok cl ?body s)
          = json 423 False
              ''Account is temporarily locked due to too many failed attempts''"
      by (simp add: login_locked)
  }
  {
    assume h: "failedLoginAttempts u = 0 \<and> length as = 5 \<and> \<not> locked u (at_time (hd as))
            \<and> (\<forall>a \<in> set as. \<not> comparePassword lib (at_password a) (password u))
            \<and> now6 < at_time (last as) + 30 * 60 * 1000"
    let ?u5 = "u\<lparr> failedLoginAttempts := failedLoginAttempts u + int (length as),
                  lockoutUntil :=
                    (if 5 \<le> failedLoginAttempts u + int (length as)
                     then Some (at_time (last as) + 30 * 60 * 1000) else None) \<rparr>"
    from h have ne: "as \<noteq> []" by auto
    have five: "user_findFirst (\<lambda>r. email r = e) (login_attempts lib e as s) = Some ?u5"
      using h by (intro login_attempts_all_wrong [OF found active ne]) simp_all
    then have f5: "user_findFirst (\<lambda>r. email r = body_email ?body)
                     (login_attempts lib e as s) = Some ?u5"
      by simp
    have a5: "isActive ?u5" using active by simp
    have l5: "locked ?u5 now6" using h by (simp add: locked_def)
    show "snd (login lib now6 tok cl ?body (login_attempts lib e as s))
          = json 423 False
              ''Account is temporarily locked due to too many failed attempts''"
      by (simp add: login_locked [OF f5 a5 l5])
  }
  {
    assume h: "\<not> locked u later \<and> comparePassword lib pw (password u)"
    then have unlocked: "\<not> locked u later"
      and right: "comparePassword lib (body_password ?body) (password u)"
      by simp_all
    note eq = login_success [OF found' active unlocked right]
    show "status (snd (login lib later tok cl ?body s)) = 200"
      by (simp add: eq)
    have "user_findFirst (\<lambda>r. email r = e)
            (fst (user_update (user_id u) (success_update later cl) s))
          = Some (success_update later cl u)"
      by (rule user_update_lookup [OF found]) (simp add: success_update_email)
    then show "user_findFirst (\<lambda>r. email r = e) (fst (login lib later tok cl ?body s))
          = Some (u\<lparr> failedLoginAttempts := 0, lockoutUntil := None,
                     lastLoginAt := Some later,
                     lastLoginIP := Some (or_unknown (ip cl)) \<rparr>)"
      by (simp add: eq loginLog_create_def refreshToken_create_def user_findFirst_def
          success_update_def)
  }
qed

theorem login_lockout_witness:
  "user_findFirst (\<lambda>r. email r = ''alice@x.com'')
     (demo_store\<lparr> users := [alice\<lparr> failedLoginAttempts := 0, lockoutUntil := Some 5000 \<rparr>] \<rparr>)
     = Some (alice\<lparr> failedLoginAttempts := 0, lockoutUntil := Some 5000 \<rparr>)
   \<and> isActive (alice\<lparr> failedLoginAttempts := 0, lockoutUntil := Some 5000 \<rparr>)
   \<and> locked (alice\<lparr> failedLoginAttempts := 0, lockoutUntil := Some 5000 \<rparr>) 1000
   \<and> length five_guesses = 5
   \<and> \<not> locked (alice\<lparr> failedLoginAttempts := 0, lockoutUntil := Some 5000 \<rparr>)
         (at_time (hd five_guesses))
   \<and> map at_password five_guesses = [''guess'', ''guess'', ''guess'', ''guess'', ''guess'']
   \<and> \<not> comparePassword demo_lib ''guess''
         (password (alice\<lparr> failedLoginAttempts := 0, lockoutUntil := Some 5000 \<rparr>))
   \<and> (6000::int) < at_time (last five_guesses) + 30 * 60 * 1000
   \<and> \<not> locked (alice\<lparr> failedLoginAttempts := 0, lockoutUntil := Some 5000 \<rparr>) 1900000
   \<and> comparePassword demo_lib ''Str0ng!Pass''
         (password (alice\<lparr> failedLoginAttempts := 0, lockoutUntil := Some 5000 \<rparr>))
   \<and> status (snd (login demo_lib 1000 ''r1'' demo_client
         \<lparr> body_email = ''alice@x.com'', body_password = ''Str0ng!Pass'' \<rparr>
         (demo_store\<lparr> users :=
            [alice\<lparr> failedLoginAttempts := 0, lockoutUntil := Some 5000 \<rparr>] \<rparr>))) = 423
   \<and> status (snd (login demo_lib 6000 ''r1'' demo_client
         \<lparr> body_email = ''alice@x.com'', body_password = ''Str0ng!Pass'' \<rparr>
         (login_attempts demo_lib ''alice@x.com'' five_guesses
           (demo_store\<lparr> users :=
             [alice\<lparr> failedLoginAttempts := 0, lockoutUntil := Some 5000 \<rparr>] \<rparr>)))) = 423
   \<and> status (snd (login demo_lib 1900000 ''r1'' demo_client
         \<lparr> body_email = ''alice@x.com'', body_password = ''Str0ng!Pass'' \<rparr>
         (demo_store\<lparr> users :=
            [alice\<lparr> failedLoginAttempts := 0, lockoutUntil := Some 5000 \<rparr>] \<rparr>))) = 200"
proof -
  let ?u = "alice\<lparr> failedLoginAttempts := 0, lockoutUntil := Some 5000 \<rparr>"
  let ?s = "demo_store\<lparr> users := [?u] \<rparr>"
  have h1: "user_findFirst (\<lambda>r. email r = ''alice@x.com'') ?s = Some ?u"
    by (simp add: user_findFirst_def demo_store_def alice_def)
  have h2: "isActive ?u" by (simp add: alice_def)
  have h3: "locked ?u 1000" by (simp add: locked_def)
  have h4: "failedLoginAttempts ?u = 0 \<and> length five_guesses = 5
            \<and> \<not> locked ?u (at_time (hd five_guesses))
            \<and> (\<forall>a \<in> set five_guesses.
                  \<not> comparePassword demo_lib (at_password a) (password ?u))
            \<and> (6000::int) < at_time (last five_guesses) + 30 * 60 * 1000"
    by (simp add: five_guesses_def locked_def comparePassword_def demo_lib_def alice_def)
  have h5: "\<not> locked ?u 1900000 \<and> comparePassword demo_lib ''Str0ng!Pass'' (password ?u)"
    by (simp add: locked_def comparePassword_def demo_lib_def alice_def)
  have h6: "map at_password five_guesses = [''guess'', ''guess'', ''guess'', ''guess'', ''guess'']"
    and h7: "\<not> comparePassword demo_lib ''guess'' (password ?u)"
    by (simp_all add: five_guesses_def comparePassword_def demo_lib_def alice_def)
  note T = login_lockout [OF h1 h2, of 1000 demo_lib "''r1''" demo_client "''Str0ng!Pass''"
        five_guesses 6000 1900000]
  have r1: "snd (login demo_lib 1000 ''r1'' demo_client
              \<lparr> body_email = ''alice@x.com'', body_password = ''Str0ng!Pass'' \<rparr> ?s)
            = json 423 False
                ''Account is temporarily locked due to too many failed attempts''"
    using T [THEN conjunct1] h3 by blast
  have r2: "snd (login demo_lib 6000 ''r1'' demo_client
              \<lparr> body_email = ''alice@x.com'', body_password = ''Str0ng!Pass'' \<rparr>
              (login_attempts demo_lib ''alice@x.com'' five_guesses ?s))
            = json 423 False
                ''Account is temporarily locked due to too many failed attempts''"
    using T [THEN conjunct2, THEN conjunct1] h4 by blast
  have r3: "status (snd (login demo_lib 1900000 ''r1'' demo_client
              \<lparr> body_email = ''alice@x.com'', body_password = ''Str0ng!Pass'' \<rparr> ?s)) = 200"
    using T [THEN conjunct2, THEN conjunct2] h5 by blast
  from h1 h2 h3 h4 h5 h6 h7 show ?thesis
    by (simp add: r1 r2 r3 json_def)
qed

text \<open>
  The claim as written speaks of every user whose lockout is in the future. A deactivated
  user with a lockout in the future is answered 401 "Account has been deactivated", not
  423.
\<close>

theorem login_locked_but_deactivated_counterexample:
  "locked (alice\<lparr> isActive := False, lockoutUntil := Some 5000 \<rparr>) 1000
   \<and> snd (login demo_lib 1000 ''r1'' demo_client
         \<lparr> body_email = ''alice@x.com'', body_password = ''Str0ng!Pass'' \<rparr>
         (demo_store\<lparr> users := [alice\<lparr> isActive := False, lockoutUntil := Some 5000 \<rparr>] \<rparr>))
     = json 401 False ''Account has been deactivated''
   \<and> status (snd (login demo_lib 1000 ''r1'' demo_client
         \<lparr> body_email = ''alice@x.com'', body_password = ''Str0ng!Pass'' \<rparr>
         (demo_store\<lparr> users := [alice\<lparr> isActive := False, lockoutUntil := Some 5000 \<rparr>] \<rparr>)))
     \<noteq> 423"
  by (simp add: login_def user_findFirst_def demo_store_def alice_def locked_def json_def
      Let_def)

section \<open>The audit log\<close>

lemma login_appends_one:
  "(\<exists>ok why. loginLogs (fst (login lib now tok cl body s))
      = loginLogs s @
        [\<lparr> log_userId = map_option user_id
                          (user_findFirst (\<lambda>r. email r = body_email body) s),
           log_email = body_email body, ipAddress = or_unknown (ip cl),
           userAgent = or_unknown (userAgentHeader cl),
           log_success = ok, reason = why \<rparr>])"
proof (cases "user_findFirst (\<lambda>r. email r = body_email body) s")
  case None
  then show ?thesis
    by (auto simp add: login_not_found loginLog_create_def attempt_log_def)
next
  case (Some u)
  note found = this
  consider (de) "\<not> isActive u" | (lo) "isActive u" "locked u now"
    | (wr) "isActive u" "\<not> locked u now"
        "\<not> comparePassword lib (body_password body) (password u)"
    | (ok) "isActive u" "\<not> locked u now"
        "comparePassword lib (body_password body) (password u)"
    by auto
  then show ?thesis
  proof cases
    case de
    with found show ?thesis
      by (auto simp add: login_deactivated loginLog_create_def attempt_log_def)
  next
    case lo
    with found show ?thesis
      by (auto simp add: login_locked loginLog_create_def attempt_log_def)
  next
    case wr
    with found show ?thesis
      by (auto simp add: login_wrong_password loginLog_create_def attempt_log_def
          user_update_def Let_def)
  next
    case ok
    with found show ?thesis
      by (auto simp add: login_success loginLog_create_def attempt_log_def
          refreshToken_create_def user_update_def Let_def)
  qed
qed

lemma register_logs:
  "loginLogs (fst (register lib salt cl body s))
   = (if status (snd (register lib salt cl body s)) = 201
      then loginLogs s @
           [\<lparr> log_userId = Some (new_user_id (users s)), log_email = reg_email body,
              ipAddress = or_unknown (ip cl), userAgent = or_unknown (userAgentHeader cl),
              log_success = True, reason = ''User registration'' \<rparr>]
      else loginLogs s)"
  by (simp add: register_def Let_def json_def user_create_def loginLog_create_def
      split: option.split)

lemma refreshToken_store: "fst (refreshToken lib db now c s) = s"
  by (simp add: refreshToken_def split: option.split)

lemma logout_logs: "loginLogs (fst (logout db caller c s)) = loginLogs s"
  by (simp add: logout_def refreshToken_updateMany_def split: option.split)

text \<open>
  Claim C1, as the code has it. Every login attempt, accepted or rejected, appends exactly
  one row to the audit log, with the attempted email, the ip address, the user agent, a
  success flag and a reason. A registration appends exactly one row when it succeeds
  (201) and none when it is rejected (409 for a taken email or username, 400 for a weak
  password). Refresh and logout write no row. No operation changes or removes a row that
  is already in the log: the old log is always a prefix of the new one.
\<close>

theorem audit_log_append_only:
  "(\<exists>ok why. loginLogs (fst (login lib now tok cl body s))
      = loginLogs s @
        [\<lparr> log_userId = map_option user_id
                          (user_findFirst (\<lambda>r. email r = body_email body) s),
           log_email = body_email body, ipAddress = or_unknown (ip cl),
           userAgent = or_unknown (userAgentHeader cl),
           log_success = ok, reason = why \<rparr>])
   \<and> loginLogs (fst (register lib salt cl rbody s))
   = (if status (snd (register lib salt cl rbody s)) = 201
      then loginLogs s @
           [\<lparr> log_userId = Some (new_user_id (users s)), log_email = reg_email rbody,
              ipAddress = or_unknown (ip cl), userAgent = or_unknown (userAgentHeader cl),
              log_success = True, reason = ''User registration'' \<rparr>]
      else loginLogs s)
   \<and> loginLogs (fst (refreshToken lib db now c s)) = loginLogs s
   \<and> loginLogs (fst (logout db caller c s)) = loginLogs s"
  using login_appends_one [of lib now tok cl body s] register_logs [of lib salt cl rbody s]
  by (simp add: refreshToken_store logout_logs)

theorem audit_log_append_only_witness:
  "status (snd (register demo_lib ''salt'' demo_client
      \<lparr> reg_username = ''Bob'', reg_email = ''bob@x.com'',
        reg_password = ''Str0ng!Pass'' \<rparr> demo_store)) = 201
   \<and> loginLogs (fst (register demo_lib ''salt'' demo_client
      \<lparr> reg_username = ''Bob'', reg_email = ''bob@x.com'',
        reg_password = ''Str0ng!Pass'' \<rparr> demo_store))
     = [\<lparr> log_userId = Some 2, log_email = ''bob@x.com'', ipAddress = ''10.0.0.1'',
          userAgent = ''unknown'', log_success = True, reason = ''User registration'' \<rparr>]
   \<and> length (loginLogs (fst (login demo_lib 1000 ''r1'' demo_client
         \<lparr> body_email = ''nobody@x.com'', body_password = ''guess'' \<rparr> demo_store))) = 1"
proof -
  let ?rb = "\<lparr> reg_username = ''Bob'', reg_email = ''bob@x.com'',
               reg_password = ''Str0ng!Pass'' \<rparr>"
  let ?lb = "\<lparr> body_email = ''nobody@x.com'', body_password = ''guess'' \<rparr>"
  have v: "valid (validatePasswordStrength ''Str0ng!Pass'')" by code_simp
  have l: "toLowerCase ''Bob'' = ''bob''" by code_simp
  have st: "status (snd (register demo_lib ''salt'' demo_client ?rb demo_store)) = 201"
    by (simp add: register_def user_findFirst_def demo_store_def alice_def json_def Let_def
        v l user_create_def)
  have e: "loginLogs demo_store = []" by (simp add: demo_store_def)
  have i: "new_user_id (users demo_store) = 2"
    by (simp add: new_user_id_def demo_store_def alice_def)
  have o: "or_unknown (ip demo_client) = ''10.0.0.1''"
    "or_unknown (userAgentHeader demo_client) = ''unknown''"
    by (simp_all add: or_unknown_def demo_client_def)
  show ?thesis
    using audit_log_append_only [of demo_lib 1000 "''r1''" demo_client ?lb demo_store
        "''salt''" ?rb demo_prisma None alice_ctx]
    by (auto simp add: st e i o)
qed

text \<open>
  The claim as written has every register attempt logged, rejected ones included. A
  registration with an email that is taken is answered 409 and leaves the audit log as
  it was.
\<close>

theorem register_rejected_writes_no_log_counterexample:
  "status (snd (register demo_lib ''salt'' demo_client
      \<lparr> reg_username = ''alice2'', reg_email = ''alice@x.com'',
        reg_password = ''Str0ng!Pass'' \<rparr> demo_store)) = 409
   \<and> loginLogs (fst (register demo_lib ''salt'' demo_client
      \<lparr> reg_username = ''alice2'', reg_email = ''alice@x.com'',
        reg_password = ''Str0ng!Pass'' \<rparr> demo_store)) = loginLogs demo_store"
  by (simp add: register_def user_findFirst_def demo_store_def alice_def json_def Let_def)


section \<open>Authentication middleware\<close>

text \<open>
  Claim C5. For an access token that is present, passes verification and names an
  active user: when the user's \<open>passwordChangedAt\<close> is later than the token's
  issued-at time (\<open>iat\<close>, in seconds, times 1000), the request is rejected with 401
  "Password has been changed. Please login again"; otherwise the user id, username and
  role of the row found in the store are attached to the request.
\<close>

theorem authenticate_stale_token:
  assumes header: "extractTokenFromHeader authorization = Some t" and "t \<noteq> []"
    and verified: "verifyAccessToken lib now t = Some payload"
    and live: "user_findFirst (\<lambda>r. user_id r = userId payload \<and> isActive r) s = Some u"
  shows "(passwordChangedAt u = Some changed \<and> iat payload = Some issued
            \<and> issued * 1000 < changed \<longrightarrow>
          authenticate lib now authorization s
          = Inl (json 401 False ''Password has been changed. Please login again''))
       \<and> (passwordChangedAt u = None \<or> iat payload = None
          \<or> (\<exists>c i. passwordChangedAt u = Some c \<and> iat payload = Some i \<and> c \<le> i * 1000)
          \<longrightarrow>
          authenticate lib now authorization s
          = Inr \<lparr> req_userId = user_id u, req_username = username u, req_role = role u \<rparr>)
       \<and> user_id u = userId payload \<and> isActive u \<and> u \<in> set (users s)"
proof -
  have u: "user_id u = userId payload \<and> isActive u \<and> u \<in> set (users s)"
    using live find_Some_sat [of "\<lambda>r. user_id r = userId payload \<and> isActive r" "users s" u]
    by (simp add: user_findFirst_def)
  have eq: "authenticate lib now authorization s
            = (if token_stale payload u
               then Inl (json 401 False ''Password has been changed. Please login again'')
               else Inr \<lparr> req_userId = user_id u, req_username = username u,
                          req_role = role u \<rparr>)"
    using assms by (simp add: authenticate_def)
  show ?thesis
    using u by (auto simp add: eq token_stale_def split: option.splits)
qed

theorem authenticate_stale_token_witness:
  "extractTokenFromHeader (Some ''Bearer jwt:alice:user'') = Some ''jwt:alice:user''
   \<and> verifyAccessToken demo_lib 500000 ''jwt:alice:user''
       = Some \<lparr> userId = 1, jwt_username = ''alice'', jwt_role = ''user'',
                 iat = Some 100, exp = Some 1000 \<rparr>
   \<and> authenticate demo_lib 500000 (Some ''Bearer jwt:alice:user'')
        (demo_store\<lparr> users := [alice\<lparr> passwordChangedAt := Some 100001 \<rparr>] \<rparr>)
       = Inl (json 401 False ''Password has been changed. Please login again'')
   \<and> authenticate demo_lib 500000 (Some ''Bearer jwt:alice:user'')
        (demo_store\<lparr> users := [alice\<lparr> passwordChangedAt := Some 100000 \<rparr>] \<rparr>)
       = Inr \<lparr> req_userId = 1, req_username = ''alice'', req_role = ''user'' \<rparr>"
proof -
  let ?p = "\<lparr> userId = 1, jwt_username = ''alice'', jwt_role = ''user'',
              iat = Some 100, exp = Some 1000 \<rparr>"
  let ?u1 = "alice\<lparr> passwordChangedAt := Some 100001 \<rparr>"
  let ?u2 = "alice\<lparr> passwordChangedAt := Some 100000 \<rparr>"
  have h1: "extractTokenFromHeader (Some ''Bearer jwt:alice:user'') = Some ''jwt:alice:user''"
    by (simp add: extractTokenFromHeader_def startsWith_def)
  have h2: "''jwt:alice:user'' \<noteq> []" by simp
  have h3: "verifyAccessToken demo_lib 500000 ''jwt:alice:user'' = Some ?p"
    by (simp add: verifyAccessToken_def demo_lib_def)
  have h4: "user_findFirst (\<lambda>r. user_id r = userId ?p \<and> isActive r)
              (demo_store\<lparr> users := [?u1] \<rparr>) = Some ?u1"
    by (simp add: user_findFirst_def alice_def)
  have h5: "user_findFirst (\<lambda>r. user_id r = userId ?p \<and> isActive r)
              (demo_store\<lparr> users := [?u2] \<rparr>) = Some ?u2"
    by (simp add: user_findFirst_def alice_def)
  show ?thesis
    using authenticate_stale_token [OF h1 h2 h3 h4, of 100001 100]
      authenticate_stale_token [OF h1 h2 h3 h5, of 100001 100]
      h1 h3
    by (simp add: alice_def)
qed

section \<open>Logout\<close>

text \<open>
  Whatever the cookie holds, logout leaves the users and the audit log alone, keeps every
  refresh-token row of another user as it was, and changes a row of the caller only by
  setting \<open>isRevoked\<close>: the \<open>where\<close> of \<open>updateMany\<close> always carries the id of the
  caller.
\<close>

lemma logout_scope:
  "users (fst (logout db caller c s)) = users s
   \<and> loginLogs (fst (logout db caller c s)) = loginLogs s
   \<and> length (refreshTokens (fst (logout db caller c s))) = length (refreshTokens s)
   \<and> (\<forall>i < length (refreshTokens s).
         rt_userId (refreshTokens s ! i) \<noteq> req_userId caller \<longrightarrow>
         refreshTokens (fst (logout db caller c s)) ! i = refreshTokens s ! i)
   \<and> (\<forall>i < length (refreshTokens s).
         refreshTokens (fst (logout db caller c s)) ! i \<noteq> refreshTokens s ! i \<longrightarrow>
         rt_userId (refreshTokens s ! i) = req_userId caller
         \<and> refreshTokens (fst (logout db caller c s)) ! i
           = (refreshTokens s ! i)\<lparr> isRevoked := True \<rparr>)"
  by (auto simp add: logout_def refreshToken_updateMany_def split: option.split)

text \<open>
  With no cookie or a cookie that is a string, logout clears the cookie and answers 200,
  whether or not a row matches; a row that changes has the cookie's text as its token,
  and a row of the caller with that token is revoked when the text is not empty.
\<close>

lemma logout_string_cookie:
  assumes "c = None \<or> c = Some (JStr t)"
  shows "snd (logout db caller c s) = loggedOut
   \<and> (\<forall>i < length (refreshTokens s).
         refreshTokens (fst (logout db caller c s)) ! i \<noteq> refreshTokens s ! i \<longrightarrow>
         c = Some (JStr (token (refreshTokens s ! i))))
   \<and> (\<forall>i < length (refreshTokens s).
         c = Some (JStr (token (refreshTokens s ! i))) \<and> token (refreshTokens s ! i) \<noteq> []
         \<and> rt_userId (refreshTokens s ! i) = req_userId caller \<longrightarrow>
         isRevoked (refreshTokens (fst (logout db caller c s)) ! i))"
  using assms
  by (auto simp add: logout_def refreshToken_updateMany_def where_string_def
      split: if_splits)

text \<open>
  A truthy cookie value that Prisma refuses makes \<open>updateMany\<close> throw: the answer is 500
  and \<open>clearCookie\<close> is not reached.
\<close>

lemma logout_refused_cookie:
  assumes "truthy v" and "where_string db v = None"
  shows "logout db caller (Some v) s = (s, json 500 False ''Internal server error'')"
  using assms by (simp add: logout_def)

text \<open>
  Claim C6. Logout revokes the row named by the cookie only when the caller owns it, leaves
  the rows of other users unchanged, and always clears the cookie and answers success,
  even when no row matches. The first two parts hold for every cookie; the last holds for
  a cookie that is absent or a string (the two lemmas above). It is broken by the request
  \<open>Cookie: refreshToken=j:1\<close>: the cookie parser hands the number 1 to the handler, the
  number is truthy, Prisma refuses it as the value of a string column, and the handler
  answers 500 "Internal server error" without clearing the cookie.
\<close>

theorem logout_unvalidated_cookie:
  "truthy (JNum 1)
   \<and> logout demo_prisma alice_ctx (Some (JNum 1))
         (demo_store\<lparr> refreshTokens := demo_tokens \<rparr>)
       = (demo_store\<lparr> refreshTokens := demo_tokens \<rparr>,
          json 500 False ''Internal server error'')
   \<and> status (snd (logout demo_prisma alice_ctx (Some (JNum 1))
                     (demo_store\<lparr> refreshTokens := demo_tokens \<rparr>))) = 500
   \<and> cookie (snd (logout demo_prisma alice_ctx (Some (JNum 1))
                     (demo_store\<lparr> refreshTokens := demo_tokens \<rparr>))) = NoCookie"
  by (simp add: logout_def where_string_def demo_prisma_def json_def)

section \<open>Refresh\<close>

text \<open>
  With a cookie that is a string and not empty, refresh answers 401 "Invalid or expired
  refresh token" if and only if no row has this token with \<open>isRevoked = false\<close> and
  \<open>expiresAt > now\<close>, or the user owning the first such row is inactive; on success the
  access token is signed over the id, username and role of that user as the store has
  them now. An absent cookie (missing, or falsy such as the empty string) is answered 401
  "Refresh token not found". The store is never modified (\<open>refreshToken_store\<close>).
\<close>

lemma refreshToken_string_cookie:
  assumes "c = Some (JStr t)" and "t \<noteq> []"
  shows "((snd (refreshToken lib db now c s)
           = json 401 False ''Invalid or expired refresh token'')
          = ((\<forall>r \<in> set (refreshTokens s).
                \<not> (token r = t \<and> isRevoked r = False \<and> now < expiresAt r))
             \<or> (\<exists>row u.
                   refreshToken_findFirst
                     (\<lambda>r. token r = t \<and> isRevoked r = False \<and> now < expiresAt r) s
                   = Some row
                   \<and> user_findFirst (\<lambda>r. user_id r = rt_userId row) s = Some u
                   \<and> \<not> isActive u)))
       \<and> (refreshToken_findFirst
             (\<lambda>r. token r = t \<and> isRevoked r = False \<and> now < expiresAt r) s = Some row
           \<and> user_findFirst (\<lambda>r. user_id r = rt_userId row) s = Some u \<and> isActive u \<longrightarrow>
           snd (refreshToken lib db now c s)
           = \<lparr> status = 200, success = True, message = None,
               data = TokenData (jwt_sign lib
                        \<lparr> userId = user_id u, jwt_username = username u,
                          jwt_role = role u \<rparr> now),
               cookie = NoCookie \<rparr>)"
proof -
  let ?wh = "\<lambda>r. token r = t \<and> isRevoked r = False \<and> now < expiresAt r"
  have none: "(refreshToken_findFirst ?wh s = None)
              = (\<forall>r \<in> set (refreshTokens s). \<not> ?wh r)"
    by (auto simp add: refreshToken_findFirst_def find_None_iff)
  have a: "(snd (refreshToken lib db now c s)
             = json 401 False ''Invalid or expired refresh token'')
           = ((\<forall>r \<in> set (refreshTokens s). \<not> ?wh r)
              \<or> (\<exists>row u. refreshToken_findFirst ?wh s = Some row
                    \<and> user_findFirst (\<lambda>r. user_id r = rt_userId row) s = Some u
                    \<and> \<not> isActive u))"
    unfolding none [symmetric] using assms
    by (auto simp add: refreshToken_def where_string_def json_def split: option.split)
  have b: "refreshToken_findFirst ?wh s = Some row
           \<and> user_findFirst (\<lambda>r. user_id r = rt_userId row) s = Some u \<and> isActive u \<longrightarrow>
           snd (refreshToken lib db now c s)
           = \<lparr> status = 200, success = True, message = None,
               data = TokenData (jwt_sign lib
                        \<lparr> userId = user_id u, jwt_username = username u,
                          jwt_role = role u \<rparr> now),
               cookie = NoCookie \<rparr>"
    using assms by (simp add: refreshToken_def where_string_def generateAccessToken_def)
  show ?thesis
    apply (intro conjI)
     apply (rule a)
    apply (rule b)
    done
qed

lemma refreshToken_absent_cookie:
  "falsy c \<Longrightarrow> refreshToken lib db now c s = (s, json 401 False ''Refresh token not found'')"
  by (cases c) (simp_all add: refreshToken_def falsy_def)

text \<open>
  Claim C7. Refresh answers "Refresh token not found" for an absent cookie, answers
  "Invalid or expired refresh token" if and only if no unrevoked, unexpired row has the
  presented value or its owner is inactive, and on success signs a token for the owner.
  For string cookies this holds (the lemmas above). It is broken by cookies that are not
  strings, which reach Prisma unchecked. With \<open>Cookie: refreshToken=j:{"not":""}\<close> the
  object is read as the filter "token different from the empty string": the first
  unrevoked, unexpired row is found and its owner gets a new access token with 200,
  although no row has the presented value. With \<open>Cookie: refreshToken=j:1\<close> Prisma
  refuses the number and the answer is 500, not "Invalid or expired refresh token".
\<close>

theorem refreshToken_unvalidated_cookie:
  "map token demo_tokens = [''tokA'', ''tokB'']
   \<and> refreshToken demo_lib demo_prisma 1000 (Some (JObj [(''not'', JStr [])]))
         (demo_store\<lparr> refreshTokens := demo_tokens \<rparr>)
       = (demo_store\<lparr> refreshTokens := demo_tokens \<rparr>,
          \<lparr> status = 200, success = True, message = None,
            data = TokenData ''jwt:alice:user'', cookie = NoCookie \<rparr>)
   \<and> refreshToken demo_lib demo_prisma 1000 (Some (JNum 1))
         (demo_store\<lparr> refreshTokens := demo_tokens \<rparr>)
       = (demo_store\<lparr> refreshTokens := demo_tokens \<rparr>,
          json 500 False ''Internal server error'')"
  by (simp add: refreshToken_def where_string_def demo_prisma_def demo_tokens_def
      refreshToken_findFirst_def user_findFirst_def demo_store_def alice_def
      generateAccessToken_def demo_lib_def)

end
